theory Spec2Isabelle
  imports Complex_Main "HOL-Library.AList"
begin

text \<open>
  A model of the REST client of \<^verbatim>\<open>client_base.py\<close> with the configuration classes of
  \<^verbatim>\<open>config.py\<close>: the classification of responses, the header builder with its lazily
  built token manager, the URL builder and the retry loop of \<open>Client.request\<close>.
  Exceptions are values (\<open>Inl\<close> of a sum), the objects the code mutates live in an
  explicit state that every operation takes and returns, and what the code calls but
  does not define (HTTP session, token library, URL splitting, JSON decoding) is a
  parameter of the model.
\<close>

section \<open>Exceptions\<close>

text \<open>
  The exception classes of \<^verbatim>\<open>client_base.py\<close> (lines 23-40) and the ones the code meets
  from outside. \<open>HttpClientError\<close> and \<open>HttpServerError\<close> derive from the transport
  library's \<open>HTTPError\<close>, \<open>Unauthorized\<close> and \<open>NotFound\<close> from \<open>HttpClientError\<close>, and
  \<open>ClientError\<close> from Python's \<open>RuntimeError\<close>. \<open>OtherError name\<close> is any other subclass
  of \<open>Exception\<close> (a connection failure, a timeout, a \<open>TypeError\<close>, a JSON decoding
  error), by its class name. An exception value carries its class and \<open>str(exc)\<close>.
  Only subclasses of \<open>Exception\<close> are modelled: \<open>except Exception\<close> (line 167) catches
  all of them.
\<close>

datatype exn_class =
    HTTPError
  | HttpClientError
  | HttpServerError
  | Unauthorized
  | NotFound
  | ClientError
  | AttributeError
  | OtherError string

datatype exn = Exn (exn_cls: exn_class) (exn_str: string)

text \<open>\<open>isinstance(exc, requests.HTTPError)\<close>, from the class statements of lines 23-40.\<close>

fun is_HTTPError :: "exn_class \<Rightarrow> bool" where
  "is_HTTPError HTTPError = True"
| "is_HTTPError HttpClientError = True"
| "is_HTTPError HttpServerError = True"
| "is_HTTPError Unauthorized = True"
| "is_HTTPError NotFound = True"
| "is_HTTPError ClientError = False"
| "is_HTTPError AttributeError = False"
| "is_HTTPError (OtherError n) = False"

section \<open>Strings\<close>

text \<open>\<open>str(n)\<close> of a Python integer: decimal digits, a minus sign when negative.\<close>

fun str_nat :: "nat \<Rightarrow> string" where
  "str_nat n =
     (if n < 10 then [''0123456789'' ! n]
      else str_nat (n div 10) @ [''0123456789'' ! (n mod 10)])"

definition str_int :: "int \<Rightarrow> string" where
  "str_int i = (if i < 0 then CHR ''-'' # str_nat (nat (- i)) else str_nat (nat i))"

text \<open>\<open>str.upper()\<close> on the ASCII letters.\<close>

definition upper_char :: "char \<Rightarrow> char" where
  "upper_char c =
     (case map_of (zip ''abcdefghijklmnopqrstuvwxyz'' ''ABCDEFGHIJKLMNOPQRSTUVWXYZ'') c of
        Some d \<Rightarrow> d
      | None \<Rightarrow> c)"

definition upper :: "string \<Rightarrow> string" where
  "upper s = map upper_char s"

section \<open>Responses and their classification\<close>

text \<open>
  The fields of the transport library's response object that the code reads:
  \<open>status_code\<close>, \<open>text\<close>, and the \<open>reason\<close> and \<open>url\<close> that \<open>raise_for_status()\<close> puts
  in its message.
\<close>

record response =
  status_code :: int
  resp_text :: string
  resp_reason :: string
  resp_url :: string

text \<open>\<open>is_ok\<close>, lines 19-20.\<close>

definition is_ok :: "int \<Rightarrow> bool" where
  "is_ok status = (299 \<ge> status \<and> status \<ge> 200)"

text \<open>
  The transport library's \<open>Response.raise_for_status()\<close> and \<open>Response.ok\<close>, which
  \<open>check_response\<close> calls. The library raises its \<open>HTTPError\<close> for a status in
  \<open>400 \<le> status < 600\<close> with the message
  \<open>"<status> Client Error: <reason> for url: <url>"\<close> (\<open>Server Error\<close> from 500 on), and
  does nothing for any other status; \<open>ok\<close> is true exactly when \<open>raise_for_status()\<close>
  does not raise. \<open>None\<close> is "does not raise".
\<close>

definition raise_for_status :: "response \<Rightarrow> exn option" where
  "raise_for_status resp =
     (if 400 \<le> status_code resp \<and> status_code resp < 500 then
        Some (Exn HTTPError (str_int (status_code resp) @ '' Client Error: '' @
                resp_reason resp @ '' for url: '' @ resp_url resp))
      else if 500 \<le> status_code resp \<and> status_code resp < 600 then
        Some (Exn HTTPError (str_int (status_code resp) @ '' Server Error: '' @
                resp_reason resp @ '' for url: '' @ resp_url resp))
      else None)"

definition ok :: "response \<Rightarrow> bool" where
  "ok resp = (raise_for_status resp = None)"

text \<open>\<open>check_response\<close>, lines 43-58. \<open>Inl\<close> is the exception raised.\<close>

definition check_response :: "response \<Rightarrow> exn + response" where
  "check_response resp =
     (if \<not> ok resp then
        (let message = str_int (status_code resp) @ '': '' @ resp_text resp;
             message = (if resp_text resp = [] then
                          (case raise_for_status resp of
                             Some e \<Rightarrow> exn_str e
                           | None \<Rightarrow> message)
                        else message)
         in if status_code resp = 403 then Inl (Exn Unauthorized message)
            else if status_code resp = 404 then Inl (Exn NotFound message)
            else Inl (Exn ClientError message))
      else Inr resp)"

section \<open>Python values\<close>

text \<open>
  The values that travel through the keyword arguments of \<open>request\<close>, its \<open>json\<close> body
  and the parsed body it returns. \<open>truthy\<close> is Python's truth test (\<open>if not is_mime\<close>).
\<close>

datatype pyval =
    PyNone
  | PyBool bool
  | PyInt int
  | PyStr string
  | PyList "pyval list"
  | PyDict "(string \<times> pyval) list"

fun truthy :: "pyval \<Rightarrow> bool" where
  "truthy PyNone = False"
| "truthy (PyBool b) = b"
| "truthy (PyInt i) = (i \<noteq> 0)"
| "truthy (PyStr s) = (s \<noteq> [])"
| "truthy (PyList l) = (l \<noteq> [])"
| "truthy (PyDict d) = (d \<noteq> [])"

section \<open>Configuration model\<close>

text \<open>
  \<^verbatim>\<open>config.py\<close>, lines 21-64. A field declared \<open>optional()\<close> with no default may hold the
  marker \<open>MISSING\<close>, which the code tests with \<open>is MISSING\<close>: it is an \<open>option\<close>, \<open>None\<close>
  for \<open>MISSING\<close>. \<open>sgconnect_env\<close> is tested the same way (line 119 of
  \<^verbatim>\<open>client_base.py\<close>), so it is an \<open>option\<close> too; its declared default is \<open>"dev"\<close>.

  A token manager is an object of the external token library, built by \<open>sgconnect(...)\<close>
  in one of two modes. It is represented by the arguments it was built from and the
  serial number of the \<open>sgconnect\<close> call that built it, so that two instances are never
  equal.
\<close>

datatype sg_args =
    ClientMode string string string string
  | ImplicitMode string string string string

datatype token_manager = TokenMgr sg_args nat

record ApiConfig =
  comment :: "string option"
  origin :: "string option"
  scope :: string
  client_id :: string
  client_secret :: string
  token_mgr :: "token_manager option"

text \<open>
  The three credential records of an environment are objects shared by every client
  built from it, and \<open>headers\<close> writes into them: an environment holds references into a
  store of \<open>ApiConfig\<close> records.
\<close>

type_synonym api_ref = nat

record XOneEnv =
  trade_information :: api_ref
  csa_information :: api_ref
  pricing_model :: api_ref
  endpoint :: string
  xone_env :: string
  version :: string
  sgconnect_env :: "string option"
  implicit_client_id :: string
  implicit_redirect_uri :: string

record XOneConfig =
  prod_env :: XOneEnv
  uat :: XOneEnv
  prebeta :: XOneEnv
  yesterday :: XOneEnv

record RootConfig =
  xone :: XOneConfig
  logger :: string
  max_retries :: int
  timeout :: int

text \<open>
  Attribute lookup on an \<open>XOneEnv\<close> object: the nine fields the class declares
  (lines 34-47), and \<open>AttributeError\<close> for any other name. The message is Python's,
  without its quotation marks.
\<close>

datatype attr = AStr string | AOptStr "string option" | AApi api_ref

definition XOneEnv_attrs :: "XOneEnv \<Rightarrow> (string \<times> attr) list" where
  "XOneEnv_attrs e =
     [(''trade_information'', AApi (trade_information e)),
      (''csa_information'', AApi (csa_information e)),
      (''pricing_model'', AApi (pricing_model e)),
      (''endpoint'', AStr (endpoint e)),
      (''xone_env'', AStr (xone_env e)),
      (''version'', AStr (version e)),
      (''sgconnect_env'', AOptStr (sgconnect_env e)),
      (''implicit_client_id'', AStr (implicit_client_id e)),
      (''implicit_redirect_uri'', AStr (implicit_redirect_uri e))]"

definition XOneEnv_getattr :: "XOneEnv \<Rightarrow> string \<Rightarrow> exn + attr" where
  "XOneEnv_getattr e name =
     (case map_of (XOneEnv_attrs e) name of
        Some v \<Rightarrow> Inr v
      | None \<Rightarrow>
          Inl (Exn AttributeError
                 (''XOneEnv object has no attribute '' @ name)))"

text \<open>A value used where the code needs a \<open>str\<close>.\<close>

definition as_str :: "attr \<Rightarrow> exn + string" where
  "as_str a =
     (case a of
        AStr s \<Rightarrow> Inr s
      | AOptStr (Some s) \<Rightarrow> Inr s
      | _ \<Rightarrow> Inl (Exn (OtherError ''TypeError'') ''not a str''))"

section \<open>The outside world\<close>

text \<open>
  One HTTP call: the arguments of \<open>self._requests_session.request(...)\<close>, lines 163-165.
\<close>

record http_call =
  call_method :: string
  call_url :: string
  call_headers :: "(string \<times> string) list"
  call_json :: pyval
  call_verify :: bool
  call_stream :: bool
  call_timeout :: int
  call_params :: "(string \<times> pyval) list"

text \<open>
  What the code calls and does not define, as parameters: the standard library's
  \<open>urlsplit\<close> and \<open>urlunsplit\<close>; the token library's \<open>sgconnect(...)\<close> (\<open>Some e\<close> when the
  construction raises \<open>e\<close>) and \<open>get_token_value()\<close>; the HTTP session's \<open>request\<close>; the
  response's \<open>json()\<close>. The number is how many calls of the same kind came before, so
  that an answer may change from one call to the next. The answer to the call
  expression of line 163 stands for everything that expression can do, Python's own
  \<open>TypeError\<close> for a keyword passed twice included.
\<close>

record extern =
  urlsplit :: "string \<Rightarrow> exn + (string \<times> string \<times> string \<times> string \<times> string)"
  urlunsplit :: "string \<times> string \<times> string \<times> string \<times> string \<Rightarrow> string"
  sgconnect :: "sg_args \<Rightarrow> nat \<Rightarrow> exn option"
  get_token_value :: "token_manager \<Rightarrow> nat \<Rightarrow> exn + string"
  session_request :: "http_call \<Rightarrow> nat \<Rightarrow> exn + response"
  response_json :: "response \<Rightarrow> exn + pyval"

text \<open>
  The state the code changes or leaves a trace in: the store of credential records,
  the token managers built so far and the record each was stored in, the HTTP calls
  issued, and the durations passed to \<open>time.sleep\<close>.
\<close>

record state =
  heap :: "api_ref \<Rightarrow> ApiConfig"
  sg_calls :: nat
  created :: "(api_ref \<times> token_manager) list"
  token_reads :: nat
  http_log :: "http_call list"
  sleep_log :: "real list"

section \<open>Clients\<close>

datatype client_kind =
    BaseClient
  | XOneTradeInfoClient
  | XOneCSAInfoClient
  | XOnePricingModelClient

record Client =
  kind :: client_kind
  env :: XOneEnv
  api :: api_ref
  api_name :: string

text \<open>
  The constructors, lines 89-97, 191-193, 201-203 and 210-212. A subclass accepts the
  environment or its name; a name is looked up in \<open>config.xone\<close> first
  (\<open>getattr(config.xone, env) if isinstance(env, str) else env\<close>).
\<close>

datatype EnvType = EnvName string | EnvObject XOneEnv

definition resolve_env :: "RootConfig \<Rightarrow> EnvType \<Rightarrow> exn + XOneEnv" where
  "resolve_env cfg e =
     (case e of
        EnvObject x \<Rightarrow> Inr x
      | EnvName n \<Rightarrow>
          (case map_of [(''prod'', prod_env (xone cfg)), (''uat'', uat (xone cfg)),
                        (''prebeta'', prebeta (xone cfg)),
                        (''yesterday'', yesterday (xone cfg))] n of
             Some x \<Rightarrow> Inr x
           | None \<Rightarrow>
               Inl (Exn AttributeError (''XOneConfig object has no attribute '' @ n))))"

definition Client_init :: "string \<Rightarrow> XOneEnv \<Rightarrow> api_ref \<Rightarrow> Client" where
  "Client_init name e a = \<lparr>kind = BaseClient, env = e, api = a, api_name = name\<rparr>"

definition XOneTradeInfoClient_init :: "XOneEnv \<Rightarrow> Client" where
  "XOneTradeInfoClient_init e =
     (Client_init ''TradeInformation'' e (trade_information e))\<lparr>kind := XOneTradeInfoClient\<rparr>"

definition XOneCSAInfoClient_init :: "XOneEnv \<Rightarrow> Client" where
  "XOneCSAInfoClient_init e =
     (Client_init ''Csa'' e (csa_information e))\<lparr>kind := XOneCSAInfoClient\<rparr>"

definition XOnePricingModelClient_init :: "XOneEnv \<Rightarrow> Client" where
  "XOnePricingModelClient_init e =
     (Client_init ''Pim'' e (pricing_model e))\<lparr>kind := XOnePricingModelClient\<rparr>"

section \<open>URL building\<close>

text \<open>\<open>posixpath.join\<close> of the standard library, and \<open>url_join\<close>, lines 79-83.\<close>

fun posixpath_join :: "string \<Rightarrow> string list \<Rightarrow> string" where
  "posixpath_join path [] = path"
| "posixpath_join path (b # p) =
     posixpath_join
       (if take 1 b = ''/'' then b
        else if path = [] \<or> last path = CHR ''/'' then path @ b
        else path @ ''/'' @ b) p"

definition url_join :: "extern \<Rightarrow> string \<Rightarrow> string list \<Rightarrow> exn + string" where
  "url_join ex u args =
     (case urlsplit ex u of
        Inl e \<Rightarrow> Inl e
      | Inr (scheme, netloc, path, query, fragment) \<Rightarrow>
          (let path = (if length path \<noteq> 0 then path else ''/'');
               path = posixpath_join path args
           in Inr (urlunsplit ex (scheme, netloc, path, query, fragment))))"

text \<open>
  \<open>url\<close>: line 151 for the base class, lines 196, 206 and 215 for the subclasses. The
  base class reads the attributes \<open>end_point\<close> and \<open>tessa_env\<close> of the environment.
\<close>

definition url :: "extern \<Rightarrow> Client \<Rightarrow> string list \<Rightarrow> exn + string" where
  "url ex c last_segments =
     (case kind c of
        BaseClient \<Rightarrow>
          (case XOneEnv_getattr (env c) ''end_point'' of
             Inl e \<Rightarrow> Inl e
           | Inr ep \<Rightarrow>
               (case XOneEnv_getattr (env c) ''tessa_env'' of
                  Inl e \<Rightarrow> Inl e
                | Inr te \<Rightarrow>
                    (case as_str ep of
                       Inl e \<Rightarrow> Inl e
                     | Inr ep_s \<Rightarrow>
                         (case as_str te of
                            Inl e \<Rightarrow> Inl e
                          | Inr te_s \<Rightarrow>
                              url_join ex ep_s
                                ([te_s, api_name c, ''rest''] @ last_segments)))))
      | XOneTradeInfoClient \<Rightarrow>
          url_join ex (endpoint (env c))
            ([''api'', api_name c, version (env c)] @ last_segments)
      | XOneCSAInfoClient \<Rightarrow>
          url_join ex (endpoint (env c)) ([''api'', api_name c, ''v1''] @ last_segments)
      | XOnePricingModelClient \<Rightarrow>
          url_join ex (endpoint (env c))
            ([''api'', api_name c, ''v1'', ''PricingInterfaceModel''] @ last_segments))"

section \<open>Headers and the token manager\<close>

text \<open>
  The block under the lock, lines 120-136: when the slot of the credential record is
  \<open>MISSING\<close>, build a token manager (client mode when both \<open>client_id\<close> and
  \<open>client_secret\<close> are non-empty, implicit mode otherwise) and store it. When
  \<open>sgconnect\<close> raises, nothing is stored and the exception leaves the block.
\<close>

definition locked_block :: "extern \<Rightarrow> Client \<Rightarrow> string \<Rightarrow> state \<Rightarrow> exn option \<times> state" where
  "locked_block ex c server s =
     (let a = heap s (api c) in
      case token_mgr a of
        Some tm \<Rightarrow> (None, s)
      | None \<Rightarrow>
          (let args =
                 (if length (client_id a) \<noteq> 0 \<and> length (client_secret a) \<noteq> 0
                  then ClientMode (client_id a) (client_secret a) server (scope a)
                  else ImplicitMode (implicit_client_id (env c))
                         (implicit_redirect_uri (env c)) server (scope a));
               s1 = s\<lparr>sg_calls := Suc (sg_calls s)\<rparr>
           in case sgconnect ex args (sg_calls s) of
                Some e \<Rightarrow> (Some e, s1)
              | None \<Rightarrow>
                  (let tm = TokenMgr args (sg_calls s)
                   in (None,
                       s1\<lparr>heap := (heap s1)(api c := a\<lparr>token_mgr := Some tm\<rparr>),
                          created := created s1 @ [(api c, tm)]\<rparr>))))"

text \<open>Lines 143-145: the \<open>Origin\<close> header.\<close>

definition add_origin :: "ApiConfig \<Rightarrow> (string \<times> string) list \<Rightarrow> (string \<times> string) list" where
  "add_origin a h =
     (case origin a of
        Some v \<Rightarrow> AList.update ''Origin'' v h
      | None \<Rightarrow> h)"

text \<open>
  \<open>Client.headers\<close>, lines 111-147. The header dictionary is an association list in
  insertion order. A slot still \<open>MISSING\<close> after the block would make
  \<open>get_token_value\<close> an attribute error; the block never leaves it so.
\<close>

definition headers ::
  "extern \<Rightarrow> Client \<Rightarrow> pyval \<Rightarrow> state \<Rightarrow> (exn + (string \<times> string) list) \<times> state" where
  "headers ex c is_mime s =
     (let h = (if \<not> truthy is_mime
               then [(''Content-Type'', ''application/json''),
                     (''Accept'', ''application/json'')]
               else [])
      in case sgconnect_env (env c) of
           Some server \<Rightarrow>
             (case locked_block ex c server s of
                (Some e, s1) \<Rightarrow> (Inl e, s1)
              | (None, s1) \<Rightarrow>
                  (case token_mgr (heap s1 (api c)) of
                     None \<Rightarrow>
                       (Inl (Exn AttributeError ''no attribute get_token_value''), s1)
                   | Some tm \<Rightarrow>
                       (let s2 = s1\<lparr>token_reads := Suc (token_reads s1)\<rparr>
                        in case get_token_value ex tm (token_reads s1) of
                             Inl e \<Rightarrow> (Inl e, s2)
                           | Inr token_value \<Rightarrow>
                               (Inr (add_origin (heap s2 (api c))
                                       (AList.update ''Authorization''
                                          (''Bearer '' @ token_value) h)),
                                s2))))
         | None \<Rightarrow> (Inr (add_origin (heap s (api c)) h), s))"

section \<open>The request pipeline\<close>

text \<open>
  The body of the \<open>try\<close>, lines 163-166, after \<open>is_mime\<close> has been popped: build the
  headers, issue the call, classify the response. The headers are an argument of the
  call, so they are built first, and an exception there means no call is issued.
\<close>

definition attempt ::
  "extern \<Rightarrow> Client \<Rightarrow> string \<Rightarrow> string \<Rightarrow> pyval \<Rightarrow> bool \<Rightarrow> (string \<times> pyval) list \<Rightarrow>
     pyval \<Rightarrow> int \<Rightarrow> state \<Rightarrow> (exn + response) \<times> state" where
  "attempt ex c method u js stream params is_mime tmo s =
     (case headers ex c is_mime s of
        (Inl e, s1) \<Rightarrow> (Inl e, s1)
      | (Inr h, s1) \<Rightarrow>
          (let call = \<lparr>call_method = method, call_url = u, call_headers = h,
                       call_json = js, call_verify = False, call_stream = stream,
                       call_timeout = tmo, call_params = params\<rparr>;
               s2 = s1\<lparr>http_log := http_log s1 @ [call]\<rparr>
           in case session_request ex call (length (http_log s1)) of
                Inl e \<Rightarrow> (Inl e, s2)
              | Inr resp \<Rightarrow> (check_response resp, s2)))"

text \<open>What \<open>request\<close> returns: the parsed body, or the response itself when streaming.\<close>

datatype result = Parsed pyval | Raw response

text \<open>
  The \<open>while\<close> loop of lines 160-178 with its \<open>else\<close> clause. The loop variables are the
  keyword dictionary (\<open>is_mime\<close> is popped from it), \<open>count\<close>, \<open>error\<close> and \<open>timeout\<close>.
  \<open>resp.json()\<close> is in the \<open>else\<close> clause of the \<open>try\<close>: an exception it raises is not
  caught by line 167.
\<close>

function request_loop ::
  "extern \<Rightarrow> RootConfig \<Rightarrow> Client \<Rightarrow> string \<Rightarrow> string \<Rightarrow> pyval \<Rightarrow> bool \<Rightarrow>
     (string \<times> pyval) list \<Rightarrow> int \<Rightarrow> exn option \<Rightarrow> int \<Rightarrow> state \<Rightarrow> (exn + result) \<times> state"
where
  "request_loop ex cfg c method u js stream params count error tmo s =
     (if count \<le> max_retries cfg then
        (let is_mime = (case map_of params ''is_mime'' of
                          Some v \<Rightarrow> v
                        | None \<Rightarrow> PyBool False);
             params1 = AList.delete ''is_mime'' params
         in case attempt ex c method u js stream params1 is_mime tmo s of
              (Inr resp, s1) \<Rightarrow>
                (if \<not> stream then
                   (case response_json ex resp of
                      Inl e \<Rightarrow> Inl e
                    | Inr v \<Rightarrow> Inr (Parsed v))
                 else Inr (Raw resp), s1)
            | (Inl exc, s1) \<Rightarrow>
                (let count1 = count + 1;
                     s2 = s1\<lparr>sleep_log := sleep_log s1 @ [0.5 * of_int count1]\<rparr>;
                     tmo1 = tmo + count1 * 5
                 in request_loop ex cfg c method u js stream params1 count1 (Some exc)
                      tmo1 s2))
      else
        (case error of
           Some e \<Rightarrow>
             (Inl (Exn ClientError
                     (''Client request failed for '' @ upper method @ '' '' @ u @
                      '': '' @ exn_str e)), s)
         | None \<Rightarrow>
             (Inl (Exn ClientError
                     (''Client request failed for '' @ upper method @ '' '' @ u @
                      '' without any exception'')), s)))"
  by pat_completeness auto
termination
  by (relation "measure (\<lambda>(ex, cfg, c, m, u, js, st, p, count, err, t, s).
                  nat (max_retries cfg + 1 - count))") auto

text \<open>\<open>Client.request\<close>, lines 155-178.\<close>

definition request ::
  "extern \<Rightarrow> RootConfig \<Rightarrow> Client \<Rightarrow> string \<Rightarrow> string list \<Rightarrow> pyval \<Rightarrow> bool \<Rightarrow>
     (string \<times> pyval) list \<Rightarrow> state \<Rightarrow> (exn + result) \<times> state" where
  "request ex cfg c method last_segments js stream params s =
     (case url ex c last_segments of
        Inl e \<Rightarrow> (Inl e, s)
      | Inr u \<Rightarrow> request_loop ex cfg c method u js stream params 0 None (timeout cfg) s)"

section \<open>Runs of the layer\<close>

text \<open>
  The operations of the layer that touch the state, to speak about everything a process
  does with its clients: a call of \<open>headers\<close>, a call of \<open>request\<close> (\<open>get\<close> and \<open>post\<close> only
  call \<open>request\<close>), and the block under the lock alone. The lock is one object of the
  class \<open>Client\<close> (line 87), so the blocks of all threads and all clients exclude each
  other, and what threads do to the slots is what some sequence of blocks does.
\<close>

datatype operation =
    OpLocked Client
  | OpHeaders Client pyval
  | OpRequest Client string "string list" pyval bool "(string \<times> pyval) list"

fun step :: "extern \<Rightarrow> RootConfig \<Rightarrow> operation \<Rightarrow> state \<Rightarrow> state" where
  "step ex cfg (OpLocked c) s =
     (case sgconnect_env (env c) of
        Some server \<Rightarrow> snd (locked_block ex c server s)
      | None \<Rightarrow> s)"
| "step ex cfg (OpHeaders c is_mime) s = snd (headers ex c is_mime s)"
| "step ex cfg (OpRequest c method last_segments js stream params) s =
     snd (request ex cfg c method last_segments js stream params s)"

fun run :: "extern \<Rightarrow> RootConfig \<Rightarrow> operation list \<Rightarrow> state \<Rightarrow> state" where
  "run ex cfg [] s = s"
| "run ex cfg (x # xs) s = run ex cfg xs (step ex cfg x s)"

section \<open>Conditions on the outside world\<close>

text \<open>
  The token library works: building a token manager and reading a token never raise.
\<close>

definition tokens_available :: "extern \<Rightarrow> bool" where
  "tokens_available ex =
     ((\<forall>a i. sgconnect ex a i = None) \<and> (\<forall>tm i. \<exists>t. get_token_value ex tm i = Inr t))"

text \<open>
  The outcome of one HTTP call as the loop sees it: the exception of the call, or the
  classification of its response.
\<close>

definition call_outcome :: "extern \<Rightarrow> http_call \<Rightarrow> nat \<Rightarrow> exn + response" where
  "call_outcome ex call i =
     (case session_request ex call i of
        Inl e \<Rightarrow> Inl e
      | Inr resp \<Rightarrow> check_response resp)"

text \<open>Every HTTP call raises or answers with a response classified as an error.\<close>

definition always_fails :: "extern \<Rightarrow> bool" where
  "always_fails ex = (\<forall>call i. \<exists>e. call_outcome ex call i = Inl e)"

text \<open>
  Each token manager built is the one its record holds, and no record had two built.
\<close>

definition slot_inv :: "state \<Rightarrow> bool" where
  "slot_inv s =
     (\<forall>r. length (filter (\<lambda>p. fst p = r) (created s)) \<le> 1 \<and>
          (\<forall>tm. (r, tm) \<in> set (created s) \<longrightarrow> token_mgr (heap s r) = Some tm))"

section \<open>Example inputs\<close>

text \<open>
  Concrete inputs on which the theorems below are evaluated: an environment with the
  declared default auth server \<open>"dev"\<close> and one without an auth server, a store whose
  records have no token manager yet, a configuration with a given retry count and the
  default timeout of 60, and two outside worlds: one whose HTTP calls all raise, one
  whose HTTP calls all answer with a given status and body (its \<open>json()\<close> parses the bodies
  \<open>"null"\<close> and \<open>"true"\<close> and raises for any other).
\<close>

definition example_env :: XOneEnv where
  "example_env =
     \<lparr>trade_information = 0, csa_information = 1, pricing_model = 2,
      endpoint = ''https://host'', xone_env = ''uat'', version = ''v2'',
      sgconnect_env = Some ''dev'', implicit_client_id = ''web'',
      implicit_redirect_uri = ''https://host/cb''\<rparr>"

definition example_env_no_auth :: XOneEnv where
  "example_env_no_auth = example_env\<lparr>sgconnect_env := None\<rparr>"

definition example_api :: ApiConfig where
  "example_api =
     \<lparr>comment = None, origin = Some ''https://origin'', scope = ''api.read'',
      client_id = ''id'', client_secret = ''secret'', token_mgr = None\<rparr>"

definition example_state :: state where
  "example_state =
     \<lparr>heap = (\<lambda>r. example_api), sg_calls = 0, created = [], token_reads = 0,
      http_log = [], sleep_log = []\<rparr>"

definition example_config :: "int \<Rightarrow> RootConfig" where
  "example_config n =
     \<lparr>xone = \<lparr>prod_env = example_env, uat = example_env, prebeta = example_env,
              yesterday = example_env_no_auth\<rparr>,
      logger = ''fit_xone'', max_retries = n, timeout = 60\<rparr>"

definition failing_extern :: extern where
  "failing_extern =
     \<lparr>urlsplit = (\<lambda>u. Inr (''https'', ''host'', [], [], [])),
      urlunsplit = (\<lambda>(scheme, netloc, path, query, fragment).
                      scheme @ ''://'' @ netloc @ path),
      sgconnect = (\<lambda>a i. None),
      get_token_value = (\<lambda>tm i. Inr ''tok''),
      session_request =
        (\<lambda>call i. Inl (Exn (OtherError ''ConnectionError'') ''connection refused'')),
      response_json = (\<lambda>resp. Inl (Exn (OtherError ''JSONDecodeError'') ''no body''))\<rparr>"

definition serving_extern :: "int \<Rightarrow> string \<Rightarrow> extern" where
  "serving_extern status body =
     failing_extern
       \<lparr>session_request :=
          (\<lambda>call i. Inr \<lparr>status_code = status, resp_text = body, resp_reason = ''reason'',
                          resp_url = call_url call\<rparr>),
        response_json :=
          (\<lambda>resp. if resp_text resp = ''null'' then Inr PyNone
                   else if resp_text resp = ''true'' then Inr (PyBool True)
                   else Inl (Exn (OtherError ''JSONDecodeError'')
                               ''Expecting value: line 1 column 1 (char 0)''))\<rparr>"

section \<open>Classification of a response\<close>

text \<open>
  C2 (counterexample). A response with status 302 is outside \<open>[200,299]\<close>, and
  \<open>check_response\<close> raises nothing for it: it returns the response.
\<close>

theorem check_response_302_returned:
  "\<not> is_ok 302 \<and>
   check_response \<lparr>status_code = 302, resp_text = ''moved'', resp_reason = ''Found'',
                    resp_url = ''https://host/api''\<rparr> =
     Inr \<lparr>status_code = 302, resp_text = ''moved'', resp_reason = ''Found'',
          resp_url = ''https://host/api''\<rparr>"
  by (simp add: check_response_def ok_def raise_for_status_def is_ok_def)

text \<open>
  C2 (amended). \<open>check_response\<close> raises exactly for a status in \<open>[400,599]\<close>:
  \<open>Unauthorized\<close> for 403, \<open>NotFound\<close> for 404 and \<open>ClientError\<close> for any other. The
  message is \<open>"<status>: <text>"\<close>, or, when the text is empty, the transport library's
  status-line message. For every other status, those below 200 and from 300 to 399
  included, it returns the response.
\<close>

theorem check_response_classifies:
  "check_response resp =
     (if 400 \<le> status_code resp \<and> status_code resp < 600 then
        Inl (Exn (if status_code resp = 403 then Unauthorized
                  else if status_code resp = 404 then NotFound
                  else ClientError)
                 (if resp_text resp = [] then
                    str_int (status_code resp) @
                    (if status_code resp < 500 then '' Client Error: ''
                     else '' Server Error: '') @
                    resp_reason resp @ '' for url: '' @ resp_url resp
                  else str_int (status_code resp) @ '': '' @ resp_text resp))
      else Inr resp)"
  by (simp add: check_response_def ok_def raise_for_status_def Let_def)

section \<open>Unfolding the loop\<close>

declare request_loop.simps [simp del]

lemma loop_exit:
  "\<not> count \<le> max_retries cfg \<Longrightarrow>
   request_loop ex cfg c method u js stream params count error tmo s =
     (case error of
        Some e \<Rightarrow>
          (Inl (Exn ClientError
                  (''Client request failed for '' @ upper method @ '' '' @ u @
                   '': '' @ exn_str e)), s)
      | None \<Rightarrow>
          (Inl (Exn ClientError
                  (''Client request failed for '' @ upper method @ '' '' @ u @
                   '' without any exception'')), s))"
  by (subst request_loop.simps) simp

lemma loop_fail_step:
  "count \<le> max_retries cfg \<Longrightarrow>
   attempt ex c method u js stream (AList.delete ''is_mime'' params)
     (case map_of params ''is_mime'' of Some v \<Rightarrow> v | None \<Rightarrow> PyBool False) tmo s = (Inl exc, s1) \<Longrightarrow>
   request_loop ex cfg c method u js stream params count error tmo s =
     request_loop ex cfg c method u js stream (AList.delete ''is_mime'' params) (count + 1)
       (Some exc) (tmo + (count + 1) * 5)
       (s1\<lparr>sleep_log := sleep_log s1 @ [0.5 * of_int (count + 1)]\<rparr>)"
  by (subst request_loop.simps) (simp add: Let_def)

lemma loop_ok_step:
  "count \<le> max_retries cfg \<Longrightarrow>
   attempt ex c method u js stream (AList.delete ''is_mime'' params)
     (case map_of params ''is_mime'' of Some v \<Rightarrow> v | None \<Rightarrow> PyBool False) tmo s = (Inr resp, s1) \<Longrightarrow>
   request_loop ex cfg c method u js stream params count error tmo s =
     (if \<not> stream then
        (case response_json ex resp of
           Inl e \<Rightarrow> Inl e
         | Inr v \<Rightarrow> Inr (Parsed v))
      else Inr (Raw resp), s1)"
  by (subst request_loop.simps) (simp add: Let_def)

lemma locked_block_logs:
  "locked_block ex c server s = (r, s') \<Longrightarrow>
   http_log s' = http_log s \<and> sleep_log s' = sleep_log s"
  by (auto simp: locked_block_def Let_def split: option.splits)

lemma headers_logs:
  "headers ex c is_mime s = (r, s') \<Longrightarrow>
   http_log s' = http_log s \<and> sleep_log s' = sleep_log s"
  by (auto simp: headers_def Let_def split: option.splits prod.splits sum.splits
      dest: locked_block_logs)

lemma locked_block_available:
  "tokens_available ex \<Longrightarrow>
   \<exists>s' tm. locked_block ex c server s = (None, s') \<and> token_mgr (heap s' (api c)) = Some tm"
  by (auto simp: locked_block_def Let_def tokens_available_def split: option.splits)

lemma headers_available:
  assumes "tokens_available ex"
  shows "\<exists>h s'. headers ex c is_mime s = (Inr h, s')"
proof (cases "sgconnect_env (env c)")
  case None
  then show ?thesis by (simp add: headers_def Let_def)
next
  case (Some server)
  from locked_block_available[OF assms, of c server s]
  obtain s1 tm where b: "locked_block ex c server s = (None, s1)"
    and t: "token_mgr (heap s1 (api c)) = Some tm" by blast
  from assms obtain tok where "get_token_value ex tm (token_reads s1) = Inr tok"
    unfolding tokens_available_def by blast
  with Some b t show ?thesis by (simp add: headers_def Let_def)
qed

text \<open>An attempt after which the headers were built: one call is logged.\<close>

lemma attempt_call:
  assumes "headers ex c is_mime s = (Inr h, s1)"
  shows "attempt ex c method u js stream params is_mime tmo s =
     (call_outcome ex \<lparr>call_method = method, call_url = u, call_headers = h,
                       call_json = js, call_verify = False, call_stream = stream,
                       call_timeout = tmo, call_params = params\<rparr> (length (http_log s)),
      s1\<lparr>http_log := http_log s @
            [\<lparr>call_method = method, call_url = u, call_headers = h,
              call_json = js, call_verify = False, call_stream = stream,
              call_timeout = tmo, call_params = params\<rparr>]\<rparr>)"
  using assms headers_logs[OF assms]
  by (simp add: attempt_def call_outcome_def Let_def split: sum.splits)

lemma attempt_logs:
  "attempt ex c method u js stream params is_mime tmo s = (r, s') \<Longrightarrow>
   sleep_log s' = sleep_log s \<and>
   (http_log s' = http_log s \<or>
    (\<exists>h s1. headers ex c is_mime s = (Inr h, s1) \<and>
       http_log s' = http_log s @
            [\<lparr>call_method = method, call_url = u, call_headers = h,
              call_json = js, call_verify = False, call_stream = stream,
              call_timeout = tmo, call_params = params\<rparr>]))"
  by (auto simp: attempt_def Let_def split: sum.splits prod.splits dest: headers_logs)

lemma fail_unfold:
  assumes "tokens_available ex" "always_fails ex" "count \<le> max_retries cfg"
  shows "\<exists>h s1 e. headers ex c (case map_of params ''is_mime'' of Some v \<Rightarrow> v | None \<Rightarrow> PyBool False) s = (Inr h, s1) \<and>
     call_outcome ex \<lparr>call_method = method, call_url = u, call_headers = h,
                       call_json = js, call_verify = False, call_stream = stream,
                       call_timeout = tmo, call_params = AList.delete ''is_mime'' params\<rparr> (length (http_log s)) = Inl e \<and>
     request_loop ex cfg c method u js stream params count error tmo s =
     request_loop ex cfg c method u js stream (AList.delete ''is_mime'' params) (count + 1)
       (Some e) (tmo + (count + 1) * 5)
       (s1\<lparr>http_log := http_log s @
            [\<lparr>call_method = method, call_url = u, call_headers = h,
              call_json = js, call_verify = False, call_stream = stream,
              call_timeout = tmo, call_params = AList.delete ''is_mime'' params\<rparr>],
          sleep_log := sleep_log s @ [0.5 * of_int (count + 1)]\<rparr>)"
proof -
  let ?im = "case map_of params ''is_mime'' of Some v \<Rightarrow> v | None \<Rightarrow> PyBool False"
  from headers_available[OF assms(1)] obtain h s1 where
    h: "headers ex c ?im s = (Inr h, s1)" by blast
  let ?call = "\<lparr>call_method = method, call_url = u, call_headers = h,
                       call_json = js, call_verify = False, call_stream = stream,
                       call_timeout = tmo, call_params = AList.delete ''is_mime'' params\<rparr>"
  from assms(2) obtain e where e: "call_outcome ex ?call (length (http_log s)) = Inl e"
    unfolding always_fails_def by blast
  have a: "attempt ex c method u js stream (AList.delete ''is_mime'' params) ?im tmo s =
      (Inl e, s1\<lparr>http_log := http_log s @ [?call]\<rparr>)"
    using attempt_call[OF h, of "method" u js stream "AList.delete ''is_mime'' params" tmo] e by simp
  have sl: "sleep_log s1 = sleep_log s" using headers_logs[OF h] by simp
  show ?thesis
    using h e loop_fail_step[OF assms(3) a, of error] sl by auto
qed

section \<open>Runs in which every attempt fails\<close>

lemma failing_run_calls:
  assumes "tokens_available ex" "always_fails ex"
  shows "nat (max_retries cfg + 1 - count) = n \<Longrightarrow>
   request_loop ex cfg c meth u js stream params count error tmo s = (r, s') \<Longrightarrow>
   (\<exists>new. http_log s' = http_log s @ new \<and> length new = n \<and>
      (\<forall>j<n. 2 * call_timeout (new ! j) =
                2 * tmo + 5 * (2 * int j * count + int j * (int j + 1))))"
proof (induction n arbitrary: params count error tmo s)
  case 0
  then have "\<not> count \<le> max_retries cfg" by simp
  from loop_exit[OF this] 0 show ?case by (auto split: option.splits)
next
  case (Suc n)
  then have le: "count \<le> max_retries cfg" by simp
  from fail_unfold[OF assms le, of c params s meth u js stream tmo error]
  obtain h s1 e where
    h: "headers ex c (case map_of params ''is_mime'' of Some v \<Rightarrow> v | None \<Rightarrow> PyBool False) s = (Inr h, s1)"
    and eq: "request_loop ex cfg c meth u js stream params count error tmo s =
     request_loop ex cfg c meth u js stream (AList.delete ''is_mime'' params) (count + 1)
       (Some e) (tmo + (count + 1) * 5)
       (s1\<lparr>http_log := http_log s @
            [\<lparr>call_method = meth, call_url = u, call_headers = h,
              call_json = js, call_verify = False, call_stream = stream,
              call_timeout = tmo, call_params = AList.delete ''is_mime'' params\<rparr>],
          sleep_log := sleep_log s @ [0.5 * of_int (count + 1)]\<rparr>)"
    by blast
  let ?call = "\<lparr>call_method = meth, call_url = u, call_headers = h,
              call_json = js, call_verify = False, call_stream = stream,
              call_timeout = tmo, call_params = AList.delete ''is_mime'' params\<rparr>"
  let ?s2 = "s1\<lparr>http_log := http_log s @ [?call],
          sleep_log := sleep_log s @ [0.5 * of_int (count + 1)]\<rparr>"
  have n: "nat (max_retries cfg + 1 - (count + 1)) = n" using Suc.prems(1) by simp
  have run: "request_loop ex cfg c meth u js stream (AList.delete ''is_mime'' params) (count + 1)
       (Some e) (tmo + (count + 1) * 5) ?s2 = (r, s')"
    using eq Suc.prems(2) by simp
  from Suc.IH[OF n run] obtain new where
    new: "http_log s' = http_log ?s2 @ new" "length new = n"
    and tm: "\<forall>j<n. 2 * call_timeout (new ! j) =
                2 * (tmo + (count + 1) * 5) + 5 * (2 * int j * (count + 1) + int j * (int j + 1))"
    by blast
  have log: "http_log s' = http_log s @ (?call # new)" using new(1) by simp
  have len: "length (?call # new) = Suc n" using new(2) by simp
  have "\<forall>j<Suc n. 2 * call_timeout ((?call # new) ! j) =
                2 * tmo + 5 * (2 * int j * count + int j * (int j + 1))"
  proof (intro allI impI)
    fix j assume j: "j < Suc n"
    show "2 * call_timeout ((?call # new) ! j) =
                2 * tmo + 5 * (2 * int j * count + int j * (int j + 1))"
    proof (cases j)
      case 0
      then show ?thesis by simp
    next
      case (Suc k)
      with j have "k < n" by simp
      with tm have "2 * call_timeout (new ! k) =
                2 * (tmo + (count + 1) * 5) + 5 * (2 * int k * (count + 1) + int k * (int k + 1))"
        by blast
      with Suc show ?thesis by (simp add: algebra_simps)
    qed
  qed
  with log len show ?case by blast
qed

lemma failing_run_sleeps:
  assumes "tokens_available ex" "always_fails ex"
  shows "nat (max_retries cfg + 1 - count) = n \<Longrightarrow>
   request_loop ex cfg c meth u js stream params count error tmo s = (r, s') \<Longrightarrow>
   sleep_log s' = sleep_log s @ map (\<lambda>k. 0.5 * of_int (count + 1 + int k)) [0..<n]"
proof (induction n arbitrary: params count error tmo s)
  case 0
  then have "\<not> count \<le> max_retries cfg" by simp
  from loop_exit[OF this] 0 show ?case by (auto split: option.splits)
next
  case (Suc n)
  then have le: "count \<le> max_retries cfg" by simp
  from fail_unfold[OF assms le, of c params s meth u js stream tmo error]
  obtain h s1 e where
    eq: "request_loop ex cfg c meth u js stream params count error tmo s =
     request_loop ex cfg c meth u js stream (AList.delete ''is_mime'' params) (count + 1)
       (Some e) (tmo + (count + 1) * 5)
       (s1\<lparr>http_log := http_log s @
            [\<lparr>call_method = meth, call_url = u, call_headers = h,
              call_json = js, call_verify = False, call_stream = stream,
              call_timeout = tmo, call_params = AList.delete ''is_mime'' params\<rparr>],
          sleep_log := sleep_log s @ [0.5 * of_int (count + 1)]\<rparr>)"
    by blast
  let ?s2 = "s1\<lparr>http_log := http_log s @
            [\<lparr>call_method = meth, call_url = u, call_headers = h,
              call_json = js, call_verify = False, call_stream = stream,
              call_timeout = tmo, call_params = AList.delete ''is_mime'' params\<rparr>],
          sleep_log := sleep_log s @ [0.5 * of_int (count + 1)]\<rparr>"
  have sl: "sleep_log ?s2 = sleep_log s @ [0.5 * of_int (count + 1)]" by simp
  have n: "nat (max_retries cfg + 1 - (count + 1)) = n" using Suc.prems(1) by simp
  have run: "request_loop ex cfg c meth u js stream (AList.delete ''is_mime'' params) (count + 1)
       (Some e) (tmo + (count + 1) * 5) ?s2 = (r, s')"
    using eq Suc.prems(2) by simp
  have "map (\<lambda>k. 0.5 * real_of_int (count + 1 + int k)) [0..<Suc n] =
        (0.5 * of_int (count + 1)) # map (\<lambda>k. 0.5 * real_of_int (count + 1 + 1 + int k)) [0..<n]"
    by (simp only: map_upt_Suc) (simp add: algebra_simps)
  with Suc.IH[OF n run] sl show ?case by simp
qed

section \<open>Exhausted retries, timeouts and sleeps\<close>

text \<open>The equations that evaluate the model on the example inputs.\<close>

lemmas eval_defs =
  request_def request_loop.simps attempt_def check_response_def ok_def raise_for_status_def
  str_int_def url_def url_join_def headers_def locked_block_def add_origin_def Let_def
  upper_def upper_char_def XOneEnv_getattr_def XOneEnv_attrs_def
  failing_extern_def serving_extern_def XOneTradeInfoClient_init_def Client_init_def
  example_env_def example_env_no_auth_def example_state_def example_api_def example_config_def

lemma failing_run_result:
  assumes "tokens_available ex" "always_fails ex"
  shows "nat (max_retries cfg + 1 - count) = Suc n \<Longrightarrow>
   request_loop ex cfg c meth u js stream params count error tmo s = (r, s') \<Longrightarrow>
   (\<exists>e. call_outcome ex (last (http_log s')) (length (http_log s') - 1) = Inl e \<and>
        r = Inl (Exn ClientError
                   (''Client request failed for '' @ upper meth @ '' '' @ u @
                    '': '' @ exn_str e)))"
proof (induction n arbitrary: params count error tmo s)
  case 0
  then have le: "count \<le> max_retries cfg" and last_one: "\<not> count + 1 \<le> max_retries cfg"
    by auto
  from fail_unfold[OF assms le, of c params s meth u js stream tmo error]
  obtain h s1 e where
    out: "call_outcome ex \<lparr>call_method = meth, call_url = u, call_headers = h,
                       call_json = js, call_verify = False, call_stream = stream,
                       call_timeout = tmo, call_params = AList.delete ''is_mime'' params\<rparr>
            (length (http_log s)) = Inl e"
    and eq: "request_loop ex cfg c meth u js stream params count error tmo s =
     request_loop ex cfg c meth u js stream (AList.delete ''is_mime'' params) (count + 1)
       (Some e) (tmo + (count + 1) * 5)
       (s1\<lparr>http_log := http_log s @
            [\<lparr>call_method = meth, call_url = u, call_headers = h,
              call_json = js, call_verify = False, call_stream = stream,
              call_timeout = tmo, call_params = AList.delete ''is_mime'' params\<rparr>],
          sleep_log := sleep_log s @ [0.5 * of_int (count + 1)]\<rparr>)"
    by blast
  from eq "0.prems"(2) loop_exit[OF last_one] out show ?case by auto
next
  case (Suc n)
  then have le: "count \<le> max_retries cfg" by simp
  from fail_unfold[OF assms le, of c params s meth u js stream tmo error]
  obtain h s1 e where
    eq: "request_loop ex cfg c meth u js stream params count error tmo s =
     request_loop ex cfg c meth u js stream (AList.delete ''is_mime'' params) (count + 1)
       (Some e) (tmo + (count + 1) * 5)
       (s1\<lparr>http_log := http_log s @
            [\<lparr>call_method = meth, call_url = u, call_headers = h,
              call_json = js, call_verify = False, call_stream = stream,
              call_timeout = tmo, call_params = AList.delete ''is_mime'' params\<rparr>],
          sleep_log := sleep_log s @ [0.5 * of_int (count + 1)]\<rparr>)"
    by blast
  have n: "nat (max_retries cfg + 1 - (count + 1)) = Suc n" using Suc.prems(1) by simp
  from Suc.IH[OF n] eq Suc.prems(2) show ?case by simp
qed

text \<open>
  C1. With a non-negative \<open>max_retries\<close> \<open>N\<close>, a URL that builds, a token library that
  works and HTTP calls that all raise or answer with a response classified as an error,
  \<open>request\<close> issues exactly \<open>N + 1\<close> calls and then raises one \<open>ClientError\<close> whose message
  is \<open>"Client request failed for <METHOD> <url>: <str of the last exception>"\<close>, the last
  exception being the failure of the last call issued.
\<close>

theorem request_exhausts_retries:
  assumes "0 \<le> max_retries cfg"
    and "url ex c segments = Inr u"
    and "tokens_available ex"
    and "always_fails ex"
    and "request ex cfg c method segments js stream params s = (r, s')"
  shows "length (http_log s') = length (http_log s) + nat (max_retries cfg + 1) \<and>
         (\<exists>e. call_outcome ex (last (http_log s')) (length (http_log s') - 1) = Inl e \<and>
              r = Inl (Exn ClientError
                         (''Client request failed for '' @ upper method @ '' '' @ u @
                          '': '' @ exn_str e)))"
proof -
  have run: "request_loop ex cfg c method u js stream params 0 None (timeout cfg) s = (r, s')"
    using assms(2,5) by (simp add: request_def)
  obtain n where n: "nat (max_retries cfg + 1 - 0) = Suc n"
    using assms(1) by (cases "nat (max_retries cfg + 1 - 0)") auto
  from failing_run_calls[OF assms(3,4) refl run]
  have "length (http_log s') = length (http_log s) + nat (max_retries cfg + 1)" by auto
  moreover note failing_run_result[OF assms(3,4) n run]
  ultimately show ?thesis by blast
qed

text \<open>
  C1 (witness). With \<open>max_retries = 1\<close> and calls that raise a connection error: two
  calls, and the message names \<open>GET\<close>, the URL and the connection error.
\<close>

theorem request_exhausts_retries_witness:
  "length (http_log (snd (request failing_extern (example_config 1)
       (XOneTradeInfoClient_init example_env) ''get'' [''a''] PyNone False [] example_state))) = 2 \<and>
   fst (request failing_extern (example_config 1)
       (XOneTradeInfoClient_init example_env) ''get'' [''a''] PyNone False [] example_state) =
     Inl (Exn ClientError
       ''Client request failed for GET https://host/api/TradeInformation/v2/a: connection refused'')"
proof -
  let ?run = "request failing_extern (example_config 1)
       (XOneTradeInfoClient_init example_env) ''get'' [''a''] PyNone False [] example_state"
  have m: "0 \<le> max_retries (example_config 1)" by (simp add: example_config_def)
  have u: "url failing_extern (XOneTradeInfoClient_init example_env) [''a''] =
             Inr ''https://host/api/TradeInformation/v2/a''"
    by (simp add: eval_defs)
  have t: "tokens_available failing_extern"
    by (simp add: tokens_available_def failing_extern_def)
  have f: "always_fails failing_extern"
    by (simp add: always_fails_def call_outcome_def failing_extern_def)
  have r: "?run = (fst ?run, snd ?run)" by simp
  from request_exhausts_retries[OF m u t f r] show ?thesis
    by (auto simp: call_outcome_def failing_extern_def example_state_def example_config_def
        upper_def upper_char_def)
qed

text \<open>The product of two consecutive integers is even.\<close>

lemma half_of_product:
  fixes x t j :: int
  assumes "2 * x = 2 * t + 5 * (j * (j + 1))"
  shows "x = t + 5 * (j * (j + 1) div 2)"
proof -
  have "even (j * (j + 1))" by simp
  then obtain z where z: "j * (j + 1) = 2 * z" unfolding dvd_def by blast
  with assms show ?thesis by simp
qed

text \<open>
  C3 (amended). In a run whose attempts all fail, the timeout passed to the HTTP call of
  attempt \<open>k\<close> (counted from 1) is the configured timeout plus \<open>5 * (1 + 2 + ... + (k - 1))\<close>,
  that is \<open>timeout + 5 * (k - 1) * k / 2\<close>: line 170 adds \<open>5 * count\<close> to the timeout
  already increased by the attempts before.
\<close>

theorem request_timeouts_cumulative:
  assumes "0 \<le> max_retries cfg"
    and "url ex c segments = Inr u"
    and "tokens_available ex"
    and "always_fails ex"
    and "request ex cfg c method segments js stream params s = (r, s')"
    and "1 \<le> k" and "k \<le> nat (max_retries cfg + 1)"
  shows "call_timeout (http_log s' ! (length (http_log s) + k - 1)) =
           timeout cfg + 5 * ((int k - 1) * int k div 2)"
proof -
  have run: "request_loop ex cfg c method u js stream params 0 None (timeout cfg) s = (r, s')"
    using assms(2,5) by (simp add: request_def)
  from failing_run_calls[OF assms(3,4) refl run]
  obtain new where new: "http_log s' = http_log s @ new"
    and tm: "\<forall>j<nat (max_retries cfg + 1 - 0). 2 * call_timeout (new ! j) =
                2 * timeout cfg + 5 * (2 * int j * 0 + int j * (int j + 1))"
    by blast
  from assms(6,7) have j: "k - 1 < nat (max_retries cfg + 1 - 0)" by simp
  with tm have "2 * call_timeout (new ! (k - 1)) =
      2 * timeout cfg + 5 * (int (k - 1) * (int (k - 1) + 1))" by simp
  from half_of_product[OF this]
  have "call_timeout (new ! (k - 1)) = timeout cfg + 5 * (int (k - 1) * (int (k - 1) + 1) div 2)" .
  moreover have "int (k - 1) = int k - 1" using assms(6) by simp
  moreover have "http_log s' ! (length (http_log s) + k - 1) = new ! (k - 1)"
    using new assms(6) by (simp add: nth_append)
  ultimately show ?thesis by simp
qed

text \<open>
  C3 (witness). With \<open>max_retries = 3\<close> and the timeout 60, the fourth call has the timeout
  \<open>60 + 5 * 6 = 90\<close>.
\<close>

theorem request_timeouts_cumulative_witness:
  "call_timeout (http_log (snd (request failing_extern (example_config 3)
       (XOneTradeInfoClient_init example_env) ''get'' [''a''] PyNone False [] example_state)) ! 3) = 90"
proof -
  let ?run = "request failing_extern (example_config 3)
       (XOneTradeInfoClient_init example_env) ''get'' [''a''] PyNone False [] example_state"
  have m: "0 \<le> max_retries (example_config 3)" by (simp add: example_config_def)
  have u: "url failing_extern (XOneTradeInfoClient_init example_env) [''a''] =
             Inr ''https://host/api/TradeInformation/v2/a''"
    by (simp add: eval_defs)
  have t: "tokens_available failing_extern"
    by (simp add: tokens_available_def failing_extern_def)
  have f: "always_fails failing_extern"
    by (simp add: always_fails_def call_outcome_def failing_extern_def)
  have r: "?run = (fst ?run, snd ?run)" by simp
  have k1: "1 \<le> (4::nat)" by simp
  have k2: "(4::nat) \<le> nat (max_retries (example_config 3) + 1)"
    by (simp add: example_config_def)
  from request_timeouts_cumulative[OF m u t f r k1 k2] show ?thesis
    by (simp add: example_state_def example_config_def)
qed

text \<open>
  C3 (counterexample). With \<open>max_retries = 2\<close>, the timeout 60 and calls that all raise,
  the third call is issued with the timeout 75, not with \<open>60 + 5 * (3 - 1) = 70\<close>.
\<close>

theorem request_third_timeout_is_75:
  "call_timeout (http_log (snd (request failing_extern (example_config 2)
       (XOneTradeInfoClient_init example_env) ''get'' [''a''] PyNone False [] example_state)) ! 2) = 75 \<and>
   (75 :: int) \<noteq> timeout (example_config 2) + 5 * (3 - 1)"
  by (simp add: eval_defs)

text \<open>
  C4 (the code at the failing input). With \<open>max_retries = 0\<close> and a call that raises,
  \<open>request\<close> issues one call, then sleeps for half a second, and only then raises its
  \<open>ClientError\<close>: one sleep where the claim has none.
\<close>

theorem request_sleeps_after_only_attempt:
  "length (http_log (snd (request failing_extern (example_config 0)
       (XOneTradeInfoClient_init example_env) ''get'' [''a''] PyNone False [] example_state))) = 1 \<and>
   sleep_log (snd (request failing_extern (example_config 0)
       (XOneTradeInfoClient_init example_env) ''get'' [''a''] PyNone False [] example_state)) = [1 / 2] \<and>
   fst (request failing_extern (example_config 0)
       (XOneTradeInfoClient_init example_env) ''get'' [''a''] PyNone False [] example_state) =
     Inl (Exn ClientError
       ''Client request failed for GET https://host/api/TradeInformation/v2/a: connection refused'')"
  by (simp add: eval_defs)

text \<open>
  In general a run whose attempts all fail sleeps after each of its \<open>N + 1\<close> attempts,
  the last included, for \<open>0.5, 1.0, ..., 0.5 * (N + 1)\<close> seconds.
\<close>

lemma request_failing_sleeps:
  assumes "url ex c segments = Inr u"
    and "tokens_available ex"
    and "always_fails ex"
    and "request ex cfg c meth segments js stream params s = (r, s')"
  shows "sleep_log s' =
           sleep_log s @ map (\<lambda>k. 0.5 * of_int (1 + int k)) [0..<nat (max_retries cfg + 1)]"
proof -
  have run: "request_loop ex cfg c meth u js stream params 0 None (timeout cfg) s = (r, s')"
    using assms(1,4) by (simp add: request_def)
  from failing_run_sleeps[OF assms(2,3) refl run] show ?thesis by simp
qed

section \<open>Any run of the loop\<close>

text \<open>
  A property of the state that every attempt keeps, and that does not depend on the sleep
  log, holds after the loop.
\<close>

lemma loop_preserves:
  assumes att: "\<And>p im t s r s1. P s \<Longrightarrow>
                  attempt ex c meth u js stream p im t s = (r, s1) \<Longrightarrow> P s1"
    and sl: "\<And>s v. P s \<Longrightarrow> P (s\<lparr>sleep_log := v\<rparr>)"
  shows "nat (max_retries cfg + 1 - count) = n \<Longrightarrow> P s \<Longrightarrow>
         P (snd (request_loop ex cfg c meth u js stream params count error tmo s))"
proof (induction n arbitrary: params count error tmo s)
  case 0
  then have "\<not> count \<le> max_retries cfg" by simp
  from loop_exit[OF this] 0 show ?case by (auto split: option.splits)
next
  case (Suc n)
  then have le: "count \<le> max_retries cfg" by simp
  let ?im = "case map_of params ''is_mime'' of Some v \<Rightarrow> v | None \<Rightarrow> PyBool False"
  obtain r s1 where a: "attempt ex c meth u js stream (AList.delete ''is_mime'' params) ?im tmo s = (r, s1)"
    by (cases "attempt ex c meth u js stream (AList.delete ''is_mime'' params) ?im tmo s")
  have p1: "P s1" using att[OF Suc.prems(2) a] .
  show ?case
  proof (cases r)
    case (Inr resp)
    with loop_ok_step[OF le, of ex c meth u js stream params tmo s resp s1 error] a p1
    show ?thesis by simp
  next
    case (Inl exc)
    have n: "nat (max_retries cfg + 1 - (count + 1)) = n" using Suc.prems(1) by simp
    from Inl loop_fail_step[OF le, of ex c meth u js stream params tmo s exc s1 error] a
    have "request_loop ex cfg c meth u js stream params count error tmo s =
          request_loop ex cfg c meth u js stream (AList.delete ''is_mime'' params) (count + 1)
            (Some exc) (tmo + (count + 1) * 5)
            (s1\<lparr>sleep_log := sleep_log s1 @ [0.5 * of_int (count + 1)]\<rparr>)" by simp
    with Suc.IH[OF n sl[OF p1]] show ?thesis by simp
  qed
qed

text \<open>
  A property of the calls a run logs, from a property of the calls one attempt logs.
  \<open>I\<close> is what is known of the keyword dictionary; popping \<open>is_mime\<close> keeps it.
\<close>

lemma loop_calls:
  assumes att: "\<And>p t s r s1. I p \<Longrightarrow>
       attempt ex c meth u js stream (AList.delete ''is_mime'' p)
         (case map_of p ''is_mime'' of Some v \<Rightarrow> v | None \<Rightarrow> PyBool False) t s = (r, s1) \<Longrightarrow>
       \<exists>new. http_log s1 = http_log s @ new \<and> (\<forall>call\<in>set new. Q call)"
    and del: "\<And>p. I p \<Longrightarrow> I (AList.delete ''is_mime'' p)"
  shows "nat (max_retries cfg + 1 - count) = n \<Longrightarrow> I params \<Longrightarrow>
         request_loop ex cfg c meth u js stream params count error tmo s = (r, s') \<Longrightarrow>
         \<exists>new. http_log s' = http_log s @ new \<and> (\<forall>call\<in>set new. Q call)"
proof (induction n arbitrary: params count error tmo s)
  case 0
  then have "\<not> count \<le> max_retries cfg" by simp
  from loop_exit[OF this] 0 show ?case by (auto split: option.splits)
next
  case (Suc n)
  then have le: "count \<le> max_retries cfg" by simp
  let ?im = "case map_of params ''is_mime'' of Some v \<Rightarrow> v | None \<Rightarrow> PyBool False"
  obtain r1 s1 where a: "attempt ex c meth u js stream (AList.delete ''is_mime'' params) ?im tmo s = (r1, s1)"
    by (cases "attempt ex c meth u js stream (AList.delete ''is_mime'' params) ?im tmo s")
  from att[OF Suc.prems(2) a] obtain new1 where
    n1: "http_log s1 = http_log s @ new1" "\<forall>call\<in>set new1. Q call" by blast
  show ?case
  proof (cases r1)
    case (Inr resp)
    with loop_ok_step[OF le, of ex c meth u js stream params tmo s resp s1 error] a Suc.prems(3)
    have "s' = s1" by simp
    with n1 show ?thesis by blast
  next
    case (Inl exc)
    have n: "nat (max_retries cfg + 1 - (count + 1)) = n" using Suc.prems(1) by simp
    let ?s2 = "s1\<lparr>sleep_log := sleep_log s1 @ [0.5 * of_int (count + 1)]\<rparr>"
    from Inl loop_fail_step[OF le, of ex c meth u js stream params tmo s exc s1 error] a Suc.prems(3)
    have run: "request_loop ex cfg c meth u js stream (AList.delete ''is_mime'' params) (count + 1)
            (Some exc) (tmo + (count + 1) * 5) ?s2 = (r, s')" by simp
    from Suc.IH[OF n del[OF Suc.prems(2)] run] obtain new2 where
      n2: "http_log s' = http_log ?s2 @ new2" "\<forall>call\<in>set new2. Q call" by blast
    from n1 n2 have "http_log s' = http_log s @ (new1 @ new2)" "\<forall>call\<in>set (new1 @ new2). Q call"
      by auto
    then show ?thesis by blast
  qed
qed

text \<open>The response an attempt returns has passed \<open>check_response\<close>.\<close>

lemma attempt_ok:
  "attempt ex c meth u js stream params is_mime tmo s = (Inr resp, s1) \<Longrightarrow> ok resp"
  by (auto simp: attempt_def check_response_def Let_def split: sum.splits prod.splits if_splits)

text \<open>The exceptions that leave the loop.\<close>

lemma loop_escapes:
  "nat (max_retries cfg + 1 - count) = n \<Longrightarrow>
   request_loop ex cfg c meth u js stream params count error tmo s = (Inl e, s') \<Longrightarrow>
   (exn_cls e = ClientError \<and>
      (\<exists>m. exn_str e = ''Client request failed for '' @ upper meth @ '' '' @ u @ m)) \<or>
   (\<not> stream \<and> (\<exists>resp. ok resp \<and> response_json ex resp = Inl e))"
proof (induction n arbitrary: params count error tmo s)
  case 0
  then have "\<not> count \<le> max_retries cfg" by simp
  from loop_exit[OF this] 0 show ?case by (auto split: option.splits)
next
  case (Suc n)
  then have le: "count \<le> max_retries cfg" by simp
  let ?im = "case map_of params ''is_mime'' of Some v \<Rightarrow> v | None \<Rightarrow> PyBool False"
  obtain r1 s1 where a: "attempt ex c meth u js stream (AList.delete ''is_mime'' params) ?im tmo s = (r1, s1)"
    by (cases "attempt ex c meth u js stream (AList.delete ''is_mime'' params) ?im tmo s")
  show ?case
  proof (cases r1)
    case (Inr resp)
    with a have okr: "ok resp" by (auto dest: attempt_ok)
    from Inr loop_ok_step[OF le, of ex c meth u js stream params tmo s resp s1 error] a Suc.prems(2)
    have "\<not> stream \<and> response_json ex resp = Inl e"
      by (auto split: if_splits sum.splits)
    with okr show ?thesis by blast
  next
    case (Inl exc)
    have n: "nat (max_retries cfg + 1 - (count + 1)) = n" using Suc.prems(1) by simp
    from Inl loop_fail_step[OF le, of ex c meth u js stream params tmo s exc s1 error] a Suc.prems(2)
    have run: "request_loop ex cfg c meth u js stream (AList.delete ''is_mime'' params) (count + 1)
            (Some exc) (tmo + (count + 1) * 5)
            (s1\<lparr>sleep_log := sleep_log s1 @ [0.5 * of_int (count + 1)]\<rparr>) = (Inl e, s')" by simp
    from Suc.IH[OF n run] show ?thesis .
  qed
qed

section \<open>A successful first attempt\<close>



section \<open>Headers without an auth server\<close>

lemma add_origin_lookup:
  "k \<noteq> ''Origin'' \<Longrightarrow> map_of (add_origin a h) k = map_of h k"
  by (simp add: add_origin_def update_conv' split: option.splits)





text \<open>
  An environment built with the declared default of \<open>sgconnect_env\<close>, \<open>"dev"\<close>, is not in
  that case: its requests carry the bearer token.
\<close>

lemma default_auth_server_sends_authorization:
  "fst (headers failing_extern (XOneTradeInfoClient_init example_env) (PyBool False)
          example_state) =
     Inr [(''Content-Type'', ''application/json''), (''Accept'', ''application/json''),
          (''Authorization'', ''Bearer tok''), (''Origin'', ''https://origin'')]"
  by (simp add: eval_defs)

section \<open>The base class\<close>

text \<open>
  C8. For a client of the base class \<open>Client\<close>, \<open>url\<close> raises an attribute error, since
  \<open>end_point\<close> is not a field of \<open>XOneEnv\<close> (its fields are \<open>endpoint\<close> and \<open>xone_env\<close>),
  and \<open>request\<close> raises the same error with the state as it was: no HTTP call is issued,
  no headers are built and nothing sleeps.
\<close>

theorem base_client_url_fails:
  assumes "kind c = BaseClient"
  shows "url ex c segments =
           Inl (Exn AttributeError ''XOneEnv object has no attribute end_point'') \<and>
         request ex cfg c method segments js stream params s =
           (Inl (Exn AttributeError ''XOneEnv object has no attribute end_point''), s)"
  using assms
  by (simp add: request_def url_def XOneEnv_getattr_def XOneEnv_attrs_def)

text \<open>
  C8 (witness). A base-class client on the example environment, in front of a backend
  that would answer 200.
\<close>

theorem base_client_url_fails_witness:
  "request (serving_extern 200 ''true'') (example_config 3)
     (Client_init ''TradeInformation'' example_env 0) ''get'' [''a''] PyNone False []
     example_state =
     (Inl (Exn AttributeError ''XOneEnv object has no attribute end_point''), example_state)"
proof -
  have k: "kind (Client_init ''TradeInformation'' example_env 0) = BaseClient"
    by (simp add: Client_init_def)
  from base_client_url_fails[OF k] show ?thesis by blast
qed

section \<open>Exceptions that leave the loop\<close>

text \<open>
  C10 (counterexample). A backend answers 200 with a body that is not JSON. The loop is
  entered, one call is issued, and the exception that reaches the caller is the JSON
  decoding error of \<open>resp.json()\<close>, not a \<open>ClientError\<close>.
\<close>

theorem json_error_escapes:
  "fst (request (serving_extern 200 ''<html>'') (example_config 3)
          (XOneTradeInfoClient_init example_env) ''get'' [''a''] PyNone False []
          example_state) =
     Inl (Exn (OtherError ''JSONDecodeError'') ''Expecting value: line 1 column 1 (char 0)'') \<and>
   OtherError ''JSONDecodeError'' \<noteq> ClientError \<and>
   length (http_log (snd (request (serving_extern 200 ''<html>'') (example_config 3)
          (XOneTradeInfoClient_init example_env) ''get'' [''a''] PyNone False []
          example_state))) = 1"
  by (simp add: eval_defs)

text \<open>
  C10 (amended). An exception that leaves the retry loop is either the final
  \<open>ClientError\<close> (\<open>"Client request failed for ..."\<close>, not an \<open>HTTPError\<close>), or, when \<open>stream\<close>
  is not set, the exception that \<open>resp.json()\<close> raised on a response that passed
  \<open>check_response\<close>. The exceptions of the attempts themselves never leave it.
\<close>

theorem request_loop_escapes:
  assumes "request_loop ex cfg c method u js stream params count error tmo s = (Inl e, s')"
  shows "(exn_cls e = ClientError \<and> \<not> is_HTTPError (exn_cls e) \<and>
            (\<exists>m. exn_str e =
                   ''Client request failed for '' @ upper method @ '' '' @ u @ m)) \<or>
         (\<not> stream \<and> (\<exists>resp. ok resp \<and> response_json ex resp = Inl e))"
  using loop_escapes[OF refl assms] by auto

text \<open>
  C10 (witness). With calls that all raise and one retry, the loop ends with the final
  \<open>ClientError\<close>.
\<close>

theorem request_loop_escapes_witness:
  "fst (request_loop failing_extern (example_config 1)
          (XOneTradeInfoClient_init example_env) ''get'' ''https://host/x'' PyNone False []
          0 None 60 example_state) =
     Inl (Exn ClientError ''Client request failed for GET https://host/x: connection refused'') \<and>
   \<not> is_HTTPError ClientError"
proof -
  let ?run = "request_loop failing_extern (example_config 1)
          (XOneTradeInfoClient_init example_env) ''get'' ''https://host/x'' PyNone False []
          0 None 60 example_state"
  have f: "fst ?run =
     Inl (Exn ClientError ''Client request failed for GET https://host/x: connection refused'')"
    by (simp add: eval_defs)
  then have r: "?run =
     (Inl (Exn ClientError ''Client request failed for GET https://host/x: connection refused''),
      snd ?run)"
    by (metis prod.collapse)
  from request_loop_escapes[OF r] f show ?thesis by simp
qed

section \<open>The flag \<open>is_mime\<close> across retries\<close>

lemma headers_content_type:
  assumes "headers ex c is_mime s = (Inr h, s1)"
  shows "map_of h ''Content-Type'' = (if truthy is_mime then None else Some ''application/json'') \<and>
         map_of h ''Accept'' = (if truthy is_mime then None else Some ''application/json'')"
  using assms
  by (auto simp: headers_def Let_def add_origin_lookup update_conv'
      split: option.splits prod.splits sum.splits)

lemma attempt_content_type:
  assumes "attempt ex c meth u js stream params is_mime tmo s = (r, s1)"
  shows "\<exists>new. http_log s1 = http_log s @ new \<and>
           (\<forall>call\<in>set new.
              map_of (call_headers call) ''Content-Type'' =
                (if truthy is_mime then None else Some ''application/json'') \<and>
              map_of (call_headers call) ''Accept'' =
                (if truthy is_mime then None else Some ''application/json'') \<and>
              call_params call = params)"
proof -
  from attempt_logs[OF assms] consider
    (none) "http_log s1 = http_log s"
    | (one) h s0 where "headers ex c is_mime s = (Inr h, s0)"
        "http_log s1 = http_log s @
            [\<lparr>call_method = meth, call_url = u, call_headers = h,
              call_json = js, call_verify = False, call_stream = stream,
              call_timeout = tmo, call_params = params\<rparr>]"
    by blast
  then show ?thesis
  proof cases
    case none
    then show ?thesis by simp
  next
    case one
    from headers_content_type[OF one(1)] one(2) show ?thesis by simp
  qed
qed

text \<open>
  C9. \<open>request\<close> is called with a true \<open>is_mime\<close> among its keyword arguments and its first
  attempt fails. The call of the first attempt, if one was issued, has neither
  \<open>Content-Type\<close> nor \<open>Accept\<close>; every call issued by a later attempt has both, set to
  \<open>application/json\<close>, and no \<open>is_mime\<close> is left in the keyword arguments: the flag was
  popped by the first attempt.
\<close>

theorem retries_lose_is_mime:
  assumes "0 \<le> max_retries cfg"
    and "url ex c segments = Inr u"
    and "map_of params ''is_mime'' = Some v"
    and "truthy v"
    and "attempt ex c method u js stream (AList.delete ''is_mime'' params) v (timeout cfg) s
           = (Inl exc, s1)"
    and "request ex cfg c method segments js stream params s = (r, s')"
  shows "(\<forall>call \<in> set (drop (length (http_log s)) (http_log s1)).
            map_of (call_headers call) ''Content-Type'' = None \<and>
            map_of (call_headers call) ''Accept'' = None) \<and>
         (\<exists>retries. http_log s' = http_log s1 @ retries \<and>
            (\<forall>call \<in> set retries.
               map_of (call_headers call) ''Content-Type'' = Some ''application/json'' \<and>
               map_of (call_headers call) ''Accept'' = Some ''application/json'' \<and>
               map_of (call_params call) ''is_mime'' = None))"
proof -
  from attempt_content_type[OF assms(5)] assms(4)
  have first: "\<forall>call \<in> set (drop (length (http_log s)) (http_log s1)).
            map_of (call_headers call) ''Content-Type'' = None \<and>
            map_of (call_headers call) ''Accept'' = None" by auto
  let ?p1 = "AList.delete ''is_mime'' params"
  let ?s2 = "s1\<lparr>sleep_log := sleep_log s1 @ [0.5 * of_int (0 + 1)]\<rparr>"
  have a: "attempt ex c method u js stream ?p1
      (case map_of params ''is_mime'' of Some v \<Rightarrow> v | None \<Rightarrow> PyBool False) (timeout cfg) s
      = (Inl exc, s1)" using assms(3,5) by simp
  have run: "request_loop ex cfg c method u js stream ?p1 (0 + 1) (Some exc)
               (timeout cfg + (0 + 1) * 5) ?s2 = (r, s')"
    using loop_fail_step[OF assms(1) a, of None] assms(2,6) by (simp add: request_def)
  have popped: "map_of ?p1 ''is_mime'' = None" by (simp add: delete_conv')
  have "\<exists>new. http_log s' = http_log ?s2 @ new \<and>
          (\<forall>call\<in>set new.
               map_of (call_headers call) ''Content-Type'' = Some ''application/json'' \<and>
               map_of (call_headers call) ''Accept'' = Some ''application/json'' \<and>
               map_of (call_params call) ''is_mime'' = None)"
  proof (rule loop_calls[where I = "\<lambda>p. map_of p ''is_mime'' = None", OF _ _ refl popped run])
    fix p t s0 r0 s10
    assume i: "map_of p ''is_mime'' = None"
      and at: "attempt ex c method u js stream (AList.delete ''is_mime'' p)
         (case map_of p ''is_mime'' of Some v \<Rightarrow> v | None \<Rightarrow> PyBool False) t s0 = (r0, s10)"
    from at i have "attempt ex c method u js stream (AList.delete ''is_mime'' p) (PyBool False) t s0
        = (r0, s10)" by simp
    from attempt_content_type[OF this]
    show "\<exists>new. http_log s10 = http_log s0 @ new \<and>
          (\<forall>call\<in>set new.
               map_of (call_headers call) ''Content-Type'' = Some ''application/json'' \<and>
               map_of (call_headers call) ''Accept'' = Some ''application/json'' \<and>
               map_of (call_params call) ''is_mime'' = None)"
      by (auto simp: delete_conv')
  next
    fix p :: "(string \<times> pyval) list"
    assume "map_of p ''is_mime'' = None"
    then show "map_of (AList.delete ''is_mime'' p) ''is_mime'' = None" by (simp add: delete_conv')
  qed
  then have "\<exists>retries. http_log s' = http_log s1 @ retries \<and>
            (\<forall>call \<in> set retries.
               map_of (call_headers call) ''Content-Type'' = Some ''application/json'' \<and>
               map_of (call_headers call) ''Accept'' = Some ''application/json'' \<and>
               map_of (call_params call) ''is_mime'' = None)" by simp
  with first show ?thesis by blast
qed

text \<open>
  C9 (witness). A \<open>post\<close> with \<open>is_mime=True\<close>, two retries and calls that all raise: the
  first call has no content type, the two retries are sent as JSON.
\<close>

theorem retries_lose_is_mime_witness:
  "map (\<lambda>call. (map_of (call_headers call) ''Content-Type'',
                map_of (call_headers call) ''Accept''))
     (http_log (snd (request failing_extern (example_config 2)
        (XOneTradeInfoClient_init example_env) ''post'' [''upload''] PyNone False
        [(''is_mime'', PyBool True), (''data'', PyStr ''bytes'')] example_state))) =
     [(None, None),
      (Some ''application/json'', Some ''application/json''),
      (Some ''application/json'', Some ''application/json'')]"
proof -
  let ?c = "XOneTradeInfoClient_init example_env"
  let ?params = "[(''is_mime'', PyBool True), (''data'', PyStr ''bytes'')]"
  let ?u = "''https://host/api/TradeInformation/v2/upload''"
  let ?run = "request failing_extern (example_config 2) ?c ''post'' [''upload''] PyNone False
        ?params example_state"
  let ?att = "attempt failing_extern ?c ''post'' ?u PyNone False
        (AList.delete ''is_mime'' ?params) (PyBool True) (timeout (example_config 2)) example_state"
  have m: "0 \<le> max_retries (example_config 2)" by (simp add: example_config_def)
  have u: "url failing_extern ?c [''upload''] = Inr ?u" by (simp add: eval_defs)
  have p: "map_of ?params ''is_mime'' = Some (PyBool True)" by simp
  have t: "truthy (PyBool True)" by simp
  have "fst ?att = Inl (Exn (OtherError ''ConnectionError'') ''connection refused'')"
    by (simp add: eval_defs)
  then have a: "?att = (Inl (Exn (OtherError ''ConnectionError'') ''connection refused''), snd ?att)"
    by (metis prod.collapse)
  have r: "?run = (fst ?run, snd ?run)" by simp
  from retries_lose_is_mime[OF m u p t a r] show ?thesis
    by (simp add: eval_defs)
qed

section \<open>The token-manager slot\<close>

text \<open>
  The block under the lock writes a slot only when it is \<open>MISSING\<close>: a slot that holds a
  token manager keeps it, and \<open>slot_inv\<close> is kept.
\<close>

lemma locked_block_slot:
  "locked_block ex c server s = (r, s') \<Longrightarrow> token_mgr (heap s r0) = Some tm \<Longrightarrow>
   token_mgr (heap s' r0) = Some tm"
  by (auto simp: locked_block_def Let_def split: option.splits if_splits)

lemma locked_block_inv:
  assumes "slot_inv s" and "locked_block ex c server s = (r, s')"
  shows "slot_inv s'"
proof (cases "token_mgr (heap s (api c))")
  case (Some tm)
  with assms show ?thesis by (simp add: locked_block_def Let_def)
next
  case None
  with assms(1) have fresh: "\<forall>tm. (api c, tm) \<notin> set (created s)"
    by (auto simp: slot_inv_def)
  then have empty: "filter (\<lambda>p. fst p = api c) (created s) = []"
    by (auto simp: filter_empty_conv)
  from assms None fresh empty show ?thesis
    by (auto simp: locked_block_def Let_def slot_inv_def split: option.splits if_splits)
qed

text \<open>
  What the block keeps, and what does not depend on the counters and logs, is kept by
  \<open>headers\<close>, by an attempt, by \<open>request\<close> and by any run of operations.
\<close>

lemma headers_preserves:
  assumes lb: "\<And>c server s r s'. P s \<Longrightarrow> locked_block ex c server s = (r, s') \<Longrightarrow> P s'"
    and tr: "\<And>s v. P s \<Longrightarrow> P (s\<lparr>token_reads := v\<rparr>)"
    and "P s" and "headers ex c is_mime s = (r, s')"
  shows "P s'"
proof (cases "sgconnect_env (env c)")
  case None
  with assms(3,4) show ?thesis by (simp add: headers_def Let_def)
next
  case (Some server)
  obtain r1 s1 where b: "locked_block ex c server s = (r1, s1)"
    by (cases "locked_block ex c server s")
  from lb[OF assms(3) b] have p1: "P s1" .
  from tr[OF p1] have p2: "P (s1\<lparr>token_reads := Suc (token_reads s1)\<rparr>)" .
  from Some b assms(4) p1 p2 show ?thesis
    by (auto simp: headers_def Let_def split: option.splits sum.splits)
qed

lemma attempt_preserves:
  assumes lb: "\<And>c server s r s'. P s \<Longrightarrow> locked_block ex c server s = (r, s') \<Longrightarrow> P s'"
    and tr: "\<And>s v. P s \<Longrightarrow> P (s\<lparr>token_reads := v\<rparr>)"
    and hl: "\<And>s v. P s \<Longrightarrow> P (s\<lparr>http_log := v\<rparr>)"
    and "P s" and "attempt ex c meth u js stream params is_mime tmo s = (r, s')"
  shows "P s'"
proof -
  obtain r1 s1 where h: "headers ex c is_mime s = (r1, s1)"
    by (cases "headers ex c is_mime s")
  from headers_preserves[of P ex, OF lb tr assms(4) h] have p1: "P s1" .
  from h assms(5) p1 hl[OF p1] show ?thesis
    by (auto simp: attempt_def Let_def split: sum.splits)
qed

lemma request_preserves:
  assumes lb: "\<And>c server s r s'. P s \<Longrightarrow> locked_block ex c server s = (r, s') \<Longrightarrow> P s'"
    and tr: "\<And>s v. P s \<Longrightarrow> P (s\<lparr>token_reads := v\<rparr>)"
    and hl: "\<And>s v. P s \<Longrightarrow> P (s\<lparr>http_log := v\<rparr>)"
    and sl: "\<And>s v. P s \<Longrightarrow> P (s\<lparr>sleep_log := v\<rparr>)"
    and "P s"
  shows "P (snd (request ex cfg c meth segments js stream params s))"
proof (cases "url ex c segments")
  case (Inl e)
  with assms(5) show ?thesis by (simp add: request_def)
next
  case (Inr u)
  have "P (snd (request_loop ex cfg c meth u js stream params 0 None (timeout cfg) s))"
    by (rule loop_preserves[where P = P, OF _ sl refl assms(5)])
       (rule attempt_preserves[of P ex, OF lb tr hl])
  with Inr show ?thesis by (simp add: request_def)
qed

lemma run_preserves:
  assumes lb: "\<And>c server s r s'. P s \<Longrightarrow> locked_block ex c server s = (r, s') \<Longrightarrow> P s'"
    and tr: "\<And>s v. P s \<Longrightarrow> P (s\<lparr>token_reads := v\<rparr>)"
    and hl: "\<And>s v. P s \<Longrightarrow> P (s\<lparr>http_log := v\<rparr>)"
    and sl: "\<And>s v. P s \<Longrightarrow> P (s\<lparr>sleep_log := v\<rparr>)"
  shows "P s \<Longrightarrow> P (run ex cfg ops s)"
proof (induction ops arbitrary: s)
  case Nil
  then show ?case by simp
next
  case (Cons x xs)
  have "P (step ex cfg x s)"
  proof (cases x)
    case (OpLocked c)
    show ?thesis
    proof (cases "sgconnect_env (env c)")
      case None
      with OpLocked Cons.prems show ?thesis by simp
    next
      case (Some server)
      from lb[OF Cons.prems, of c server] Some OpLocked show ?thesis
        by (cases "locked_block ex c server s") simp
    qed
  next
    case (OpHeaders c is_mime)
    from headers_preserves[of P ex, OF lb tr Cons.prems] OpHeaders show ?thesis
      by (cases "headers ex c is_mime s") simp
  next
    case (OpRequest c meth segments js stream params)
    from request_preserves[of P ex, OF lb tr hl sl Cons.prems] OpRequest show ?thesis by simp
  qed
  from Cons.IH[OF this] show ?case by simp
qed

lemma run_append: "run ex cfg (xs @ ys) s = run ex cfg ys (run ex cfg xs s)"
  by (induction xs arbitrary: s) simp_all

lemma run_slot:
  "token_mgr (heap s r0) = Some tm \<Longrightarrow> token_mgr (heap (run ex cfg ops s) r0) = Some tm"
  by (rule run_preserves[where P = "\<lambda>s. token_mgr (heap s r0) = Some tm"])
     (auto dest: locked_block_slot)

lemma run_inv:
  assumes "slot_inv s"
  shows "slot_inv (run ex cfg ops s)"
proof (rule run_preserves[where P = slot_inv])
  show "\<And>c server s r s'. slot_inv s \<Longrightarrow> locked_block ex c server s = (r, s') \<Longrightarrow> slot_inv s'"
    by (rule locked_block_inv)
  show "\<And>s v. slot_inv s \<Longrightarrow> slot_inv (s\<lparr>token_reads := v\<rparr>)" by (simp add: slot_inv_def)
  show "\<And>s v. slot_inv s \<Longrightarrow> slot_inv (s\<lparr>http_log := v\<rparr>)" by (simp add: slot_inv_def)
  show "\<And>s v. slot_inv s \<Longrightarrow> slot_inv (s\<lparr>sleep_log := v\<rparr>)" by (simp add: slot_inv_def)
  show "slot_inv s" by (rule assms)
qed

text \<open>
  C7. Over any sequence of operations of the layer (calls of \<open>headers\<close> and \<open>request\<close> by
  any clients, and blocks under the lock in any order), starting before any token
  manager was built: no credential record has more than one token manager built for
  it; a token manager built for a record is the one its slot holds after any further
  operations; and a slot that held a token manager at the start still holds it.
\<close>

theorem token_manager_created_once:
  assumes "created s = []"
  shows "(\<forall>r. length (filter (\<lambda>p. fst p = r) (created (run ex cfg ops s))) \<le> 1) \<and>
         (\<forall>r tm. (r, tm) \<in> set (created (run ex cfg ops s)) \<longrightarrow>
                   token_mgr (heap (run ex cfg (ops @ later) s) r) = Some tm) \<and>
         (\<forall>r tm. token_mgr (heap s r) = Some tm \<longrightarrow>
                   token_mgr (heap (run ex cfg ops s) r) = Some tm)"
proof -
  from assms have "slot_inv s" by (simp add: slot_inv_def)
  then have inv: "slot_inv (run ex cfg ops s)" by (rule run_inv)
  then have one: "\<forall>r. length (filter (\<lambda>p. fst p = r) (created (run ex cfg ops s))) \<le> 1"
    by (simp add: slot_inv_def)
  have kept: "\<forall>r tm. (r, tm) \<in> set (created (run ex cfg ops s)) \<longrightarrow>
                   token_mgr (heap (run ex cfg (ops @ later) s) r) = Some tm"
  proof (intro allI impI)
    fix r tm assume "(r, tm) \<in> set (created (run ex cfg ops s))"
    with inv have "token_mgr (heap (run ex cfg ops s) r) = Some tm"
      by (simp add: slot_inv_def)
    then show "token_mgr (heap (run ex cfg (ops @ later) s) r) = Some tm"
      by (simp add: run_append run_slot)
  qed
  from one kept show ?thesis by (simp add: run_slot)
qed

text \<open>
  C7 (witness). A call of \<open>headers\<close>, a failing \<open>request\<close> with one retry and one more
  block under the lock build one token manager for record 0, by the first \<open>sgconnect\<close>
  call, and a later call of \<open>headers\<close> finds it in the slot.
\<close>

theorem token_manager_created_once_witness:
  "created (run failing_extern (example_config 1)
       [OpHeaders (XOneTradeInfoClient_init example_env) (PyBool False),
        OpRequest (XOneTradeInfoClient_init example_env) ''get'' [''a''] PyNone False [],
        OpLocked (XOneTradeInfoClient_init example_env)] example_state) =
     [(0, TokenMgr (ClientMode ''id'' ''secret'' ''dev'' ''api.read'') 0)] \<and>
   token_mgr (heap (run failing_extern (example_config 1)
       ([OpHeaders (XOneTradeInfoClient_init example_env) (PyBool False),
         OpRequest (XOneTradeInfoClient_init example_env) ''get'' [''a''] PyNone False [],
         OpLocked (XOneTradeInfoClient_init example_env)] @
        [OpHeaders (XOneTradeInfoClient_init example_env) (PyBool True)]) example_state) 0) =
     Some (TokenMgr (ClientMode ''id'' ''secret'' ''dev'' ''api.read'') 0)"
proof -
  let ?c = "XOneTradeInfoClient_init example_env"
  let ?ops = "[OpHeaders ?c (PyBool False), OpRequest ?c ''get'' [''a''] PyNone False [],
               OpLocked ?c]"
  have e: "created example_state = []" by (simp add: example_state_def)
  have c: "created (run failing_extern (example_config 1) ?ops example_state) =
     [(0, TokenMgr (ClientMode ''id'' ''secret'' ''dev'' ''api.read'') 0)]"
    by (simp add: eval_defs)
  from token_manager_created_once[OF e, of failing_extern "example_config 1" ?ops
      "[OpHeaders ?c (PyBool True)]"] c
  show ?thesis by simp
qed

end
